theory Spec2Isabelle
  imports Complex_Main
begin

section \<open>Radial profiles of StagPy: a model of \<open>stagpy/rprof.py\<close>\<close>

text \<open>
  The module post-processes tables of floating-point numbers with numpy. The model
  idealises IEEE doubles as the real numbers: \<open>+\<close>, \<open>-\<close>, \<open>*\<close> and \<open>/\<close> are exact.
  Python integers are \<open>int\<close>. Every place where the source raises is a branch of
  the model that returns \<open>Inl\<close> of the exception. Where numpy divides an array by
  zero it does not raise (the entry becomes inf or nan, with a warning); the model has
  HOL's \<open>x / 0 = 0\<close> there, and every theorem about a value assumes the denominators
  it needs to be nonzero. Division of two Python floats raises \<open>ZeroDivisionError\<close>
  and is modelled by \<open>py_div\<close>.
\<close>

subsection \<open>Python and numpy primitives\<close>

datatype py_error = IndexError | ValueError | ZeroDivisionError | TypeError

type_synonym 'a result = "py_error + 'a"

definition bind_result :: "'a result \<Rightarrow> ('a \<Rightarrow> 'b result) \<Rightarrow> 'b result" where
  "bind_result m f = (case m of Inl e \<Rightarrow> Inl e | Inr v \<Rightarrow> f v)"

text \<open>\<open>xs[i]\<close>: a negative index counts from the end, an index out of range raises.\<close>

definition norm_index :: "nat \<Rightarrow> int \<Rightarrow> nat result" where
  "norm_index n i =
     (let j = (if i < 0 then i + int n else i)
      in if 0 \<le> j \<and> j < int n then Inr (nat j) else Inl IndexError)"

definition get :: "'a list \<Rightarrow> int \<Rightarrow> 'a result" where
  "get xs i = bind_result (norm_index (length xs) i) (\<lambda>j. Inr (xs ! j))"

text \<open>\<open>xs[a:b]\<close>: both bounds are clipped to the list, a negative bound counts from
  the end, and an empty range gives the empty list.\<close>

definition clip_bound :: "nat \<Rightarrow> int \<Rightarrow> nat" where
  "clip_bound n i = (if i < 0 then nat (max (i + int n) 0) else nat (min i (int n)))"

definition py_slice :: "int \<Rightarrow> int \<Rightarrow> 'a list \<Rightarrow> 'a list" where
  "py_slice a b xs =
     (let lo = clip_bound (length xs) a; hi = clip_bound (length xs) b
      in take (hi - lo) (drop lo xs))"

text \<open>An elementwise operation on two one-dimensional arrays, with numpy's
  broadcasting: equal lengths pair up, an array of length one is stretched, anything
  else raises \<open>ValueError\<close>.\<close>

definition np_binop :: "(real \<Rightarrow> real \<Rightarrow> real) \<Rightarrow> real list \<Rightarrow> real list \<Rightarrow> real list result" where
  "np_binop f xs ys =
     (if length xs = length ys then Inr (map2 f xs ys)
      else if length xs = 1 then Inr (map (f (hd xs)) ys)
      else if length ys = 1 then Inr (map (\<lambda>x. f x (hd ys)) xs)
      else Inl ValueError)"

text \<open>Division of one Python float by another.\<close>

definition py_div :: "real \<Rightarrow> real \<Rightarrow> real result" where
  "py_div a b = (if b = 0 then Inl ZeroDivisionError else Inr (a / b))"

subsection \<open>The profile table\<close>

text \<open>A two-dimensional numpy array: \<open>ncols\<close> columns, and the rows in order. The
  array is rectangular (\<open>wf_table\<close>).\<close>

record table =
  ncols :: nat
  rows :: "real list list"

definition wf_table :: "table \<Rightarrow> bool" where
  "wf_table d = list_all (\<lambda>r. length r = ncols d) (rows d)"

text \<open>\<open>data[a:b, c]\<close> and \<open>data[i, c]\<close>.\<close>

definition col_slice :: "table \<Rightarrow> int \<Rightarrow> int \<Rightarrow> int \<Rightarrow> real list result" where
  "col_slice d a b c =
     bind_result (norm_index (ncols d) c) (\<lambda>k. Inr (map (\<lambda>r. r ! k) (py_slice a b (rows d))))"

definition cell :: "table \<Rightarrow> int \<Rightarrow> int \<Rightarrow> real result" where
  "cell d i c =
     bind_result (norm_index (length (rows d)) i) (\<lambda>j.
     bind_result (norm_index (ncols d) c) (\<lambda>k. Inr (rows d ! j ! k)))"

subsection \<open>Energy balance: \<open>_calc_energy\<close>\<close>

text \<open>The statements of the source in their order. The result is
  \<open>(qtot, qadv, qcond, zgrid)\<close>.\<close>

definition calc_energy ::
  "table \<Rightarrow> int \<Rightarrow> int \<Rightarrow> (real list \<times> real list \<times> real list \<times> real list) result" where
  "calc_energy d ir0 ir1 =
     bind_result (col_slice d ir0 ir1 63) (\<lambda>zg.
     let zgrid = zg @ [1] in
     bind_result (col_slice d (ir0 + 1) ir1 0) (\<lambda>zhi.
     bind_result (col_slice d ir0 (ir1 - 1) 0) (\<lambda>zlo.
     bind_result (np_binop (-) zhi zlo) (\<lambda>dzg.
     bind_result (col_slice d ir0 (ir1 - 1) 60) (\<lambda>qa.
     let qadv = (0 # qa) @ [0] in
     bind_result (col_slice d ir0 (ir1 - 1) 1) (\<lambda>tlo.
     bind_result (col_slice d (ir0 + 1) ir1 1) (\<lambda>thi.
     bind_result (np_binop (-) tlo thi) (\<lambda>dt.
     bind_result (np_binop (/) dt dzg) (\<lambda>qc.
     bind_result (cell d ir0 1) (\<lambda>t0.
     bind_result (cell d ir0 0) (\<lambda>z0.
     bind_result (py_div (1 - t0) z0) (\<lambda>qcond0.
     bind_result (cell d ir1 1) (\<lambda>t1.
     bind_result (cell d ir1 0) (\<lambda>z1.
     bind_result (py_div t1 (1 - z1)) (\<lambda>qtop.
     let qcond = (qcond0 # qc) @ [qtop] in
     bind_result (np_binop (+) qadv qcond) (\<lambda>qtot.
     Inr (qtot, qadv, qcond, zgrid)))))))))))))))))"

subsection \<open>Volumetric norm: \<open>_normprof\<close>\<close>

text \<open>\<open>np.diff\<close> and numpy's \<open>trapz(y, x)\<close>, which computes
  \<open>(diff(x) * (y[1:] + y[:-1]) / 2.0).sum()\<close>.\<close>

definition np_diff :: "real list \<Rightarrow> real list" where
  "np_diff xs = map2 (-) (tl xs) (butlast xs)"

definition trapz :: "real list \<Rightarrow> real list \<Rightarrow> real result" where
  "trapz y x =
     bind_result (np_binop (+) (tl y) (butlast y)) (\<lambda>s.
     bind_result (np_binop (*) (np_diff x) s) (\<lambda>p.
     Inr (sum_list (map (\<lambda>v. v / 2) p))))"

definition normprof :: "real list \<Rightarrow> real list \<Rightarrow> real result" where
  "normprof rrr func =
     bind_result (get rrr (- 1)) (\<lambda>rlast.
     bind_result (get rrr 0) (\<lambda>rfirst.
     bind_result (np_binop (*) (map (\<lambda>v. v ^ 2) func) (map (\<lambda>v. v ^ 2) rrr)) (\<lambda>y.
     bind_result (trapz y rrr) (\<lambda>integral.
     Inr (3 / (rlast ^ 3 - rfirst ^ 3) * integral)))))"

subsection \<open>Boundary extrapolation: \<open>_extrap\<close>\<close>

text \<open>\<open>np.interp(x, xp, fp)\<close> for one-dimensional arguments. numpy raises
  \<open>ValueError\<close> when \<open>xp\<close> is empty or \<open>xp\<close> and \<open>fp\<close> differ in length. A
  position beyond the last sample gets the last value, one before the first sample the
  first value. Otherwise numpy searches the segment \<open>j\<close> with
  \<open>xp[j] \<le> x < xp[j+1]\<close>; the model takes the linear search numpy uses on short
  arrays (the first sample greater than \<open>x\<close>, minus one). On increasing samples
  every search gives this segment; on other samples numpy documents the result as
  meaningless and no theorem below is about its value.\<close>

definition interp1 :: "real list \<Rightarrow> real list \<Rightarrow> real \<Rightarrow> real" where
  "interp1 xp fp x =
     (if x > last xp then last fp
      else if x < hd xp then hd fp
      else let j = length (takeWhile (\<lambda>a. a \<le> x) xp) - 1 in
        if j = length xp - 1 then fp ! j
        else if xp ! j = x then fp ! j
        else (fp ! (j + 1) - fp ! j) / (xp ! (j + 1) - xp ! j) * (x - xp ! j) + fp ! j)"

definition np_interp :: "real list \<Rightarrow> real list \<Rightarrow> real list \<Rightarrow> real list result" where
  "np_interp x xp fp =
     (if xp = [] \<or> length xp \<noteq> length fp then Inl ValueError
      else Inr (map (interp1 xp fp) x))"

text \<open>The two masked assignments of \<open>_extrap\<close> rewrite the entries of \<open>ypos\<close>
  whose position lies before the first sample, then those beyond the last one.\<close>

definition extrap :: "real list \<Rightarrow> real list \<Rightarrow> real list \<Rightarrow> real list result" where
  "extrap xpos xpoints ypoints =
     bind_result (np_interp xpos xpoints ypoints) (\<lambda>ypos.
     bind_result (get ypoints 0) (\<lambda>y0.
     bind_result (get xpoints 0) (\<lambda>x0.
     bind_result (get ypoints 1) (\<lambda>y1.
     bind_result (get xpoints 1) (\<lambda>x1.
     let ypos1 = map2 (\<lambda>x y. if x < x0 then y0 + (x - x0) * (y0 - y1) / (x0 - x1) else y)
                   xpos ypos in
     bind_result (get ypoints (- 1)) (\<lambda>yl.
     bind_result (get xpoints (- 1)) (\<lambda>xl.
     bind_result (get ypoints (- 2)) (\<lambda>ym.
     bind_result (get xpoints (- 2)) (\<lambda>xm.
     Inr (map2 (\<lambda>x y. if x > xl then yl + (x - xl) * (yl - ym) / (xl - xm) else y)
            xpos ypos1))))))))))"

subsection \<open>Profile index resolver: the head of the loop of \<open>plotprofiles\<close>\<close>

text \<open>\<open>nzi\<close> is a numpy array of 64-bit signed integers (\<open>int64\<close>) with three
  columns; a row is a triple of integers in the range of \<open>int64\<close> (\<open>wf_nzi\<close>).
  Arithmetic on its entries wraps around modulo \<open>2\<^sup>6\<^sup>4\<close>: \<open>wrap64\<close> is the signed
  value of a result. \<open>step\<close> comes from a Python \<open>range\<close>; the model is for a
  \<open>step\<close> in the range of \<open>int64\<close>, which numpy converts to \<open>int64\<close> when it
  meets an entry of \<open>nzi\<close>.\<close>

definition int64 :: "int \<Rightarrow> bool" where
  "int64 x \<longleftrightarrow> - (2 ^ 63) \<le> x \<and> x < 2 ^ 63"

definition wrap64 :: "int \<Rightarrow> int" where
  "wrap64 x = (x + 2 ^ 63) mod 2 ^ 64 - 2 ^ 63"

definition wf_nzi :: "(int \<times> int \<times> int) list \<Rightarrow> bool" where
  "wf_nzi nzi = list_all (\<lambda>(t, n, nz). int64 t \<and> int64 n \<and> int64 nz) nzi"

text \<open>\<open>ann.index(step)\<close> is the first position of \<open>step\<close> in the sorted list.\<close>

fun index_of :: "int \<Rightarrow> int list \<Rightarrow> nat result" where
  "index_of x [] = Inl ValueError"
| "index_of x (y # ys) =
     (if x = y then Inr 0 else bind_result (index_of x ys) (\<lambda>k. Inr (Suc k)))"

text \<open>\<open>np.multiply\<close> wraps each product, \<open>np.sum\<close> adds modulo \<open>2\<^sup>6\<^sup>4\<close> (the
  wrapped sum does not depend on the order of the additions), and each operation of
  \<open>(step - nzi[inn - 1, 0] - 1) * nzi[inn, 2]\<close> and of \<open>ir0 + nzi[inn, 2] - 1\<close>
  wraps.\<close>

definition profile_rows :: "(int \<times> int \<times> int) list \<Rightarrow> int \<Rightarrow> (int \<times> int) result" where
  "profile_rows nzi step =
     (let ann = sort (map fst nzi @ [step]) in
      bind_result (index_of step ann) (\<lambda>inn.
      let nnz = map (\<lambda>(t, n, nz). wrap64 (n * nz)) nzi in
      bind_result (get nzi (int inn - 1)) (\<lambda>prev.
      bind_result (get nzi (int inn)) (\<lambda>cur.
      let ir0 = wrap64 (wrap64 (sum_list (py_slice 0 (int inn) nnz))
                        + wrap64 (wrap64 (wrap64 (step - fst prev) - 1) * snd (snd cur)));
          ir1 = wrap64 (wrap64 (ir0 + snd (snd cur)) - 1)
      in Inr (ir0, ir1)))))"

subsection \<open>Time-averaged profiles: the computation of \<open>plotaveragedprofiles\<close>\<close>

text \<open>\<open>chunks(mydata, nbz)\<close> is
  \<open>[mydata[ii:ii + nbz] for ii in range(0, len(mydata), nbz)]\<close>; \<open>range\<close> raises
  \<open>ValueError\<close> on a step of zero.\<close>

function chunks_from :: "nat \<Rightarrow> 'a list \<Rightarrow> 'a list list" where
  "chunks_from nbz xs =
     (if nbz = 0 \<or> xs = [] then [] else take nbz xs # chunks_from nbz (drop nbz xs))"
  by pat_completeness auto
termination
  by (relation "measure (\<lambda>(nbz, xs). length xs)") auto

declare chunks_from.simps [simp del]

definition chunks :: "'a list \<Rightarrow> nat \<Rightarrow> 'a list list result" where
  "chunks mydata nbz = (if nbz = 0 then Inl ValueError else Inr (chunks_from nbz mydata))"

text \<open>\<open>data[:, vartuple]\<close>: the listed columns of every row.\<close>

fun norm_indices :: "nat \<Rightarrow> int list \<Rightarrow> nat list result" where
  "norm_indices n [] = Inr []"
| "norm_indices n (c # cs) =
     bind_result (norm_index n c) (\<lambda>k.
     bind_result (norm_indices n cs) (\<lambda>ks. Inr (k # ks)))"

definition select_cols :: "table \<Rightarrow> int list \<Rightarrow> real list list result" where
  "select_cols d vartuple =
     bind_result (norm_indices (ncols d) vartuple) (\<lambda>ks.
     Inr (map (\<lambda>r. map (\<lambda>k. r ! k) ks) (rows d)))"

text \<open>\<open>np.mean(donnee_chunk, axis=0)\<close>: the chunks are stacked and averaged entry by
  entry, the sum of the chunks divided by their number. The model raises
  \<open>ValueError\<close> when the chunks differ in their number of rows (what numpy does
  with such a list depends on its version). The list of chunks is never empty where
  \<open>averaged_profile\<close> calls it.\<close>

definition add_rows :: "real list list \<Rightarrow> real list list \<Rightarrow> real list list" where
  "add_rows a b = map2 (map2 (+)) a b"

definition mean_axis0 :: "real list list list \<Rightarrow> real list list result" where
  "mean_axis0 cs =
     (case cs of
        [] \<Rightarrow> Inr []
      | c # rest \<Rightarrow>
          if list_all (\<lambda>c'. length c' = length c) rest
          then Inr (map (map (\<lambda>v. v / real (length cs))) (foldl add_rows c rest))
          else Inl ValueError)"

text \<open>\<open>ntsteps\<close> is \<open>np.shape(tsteps)[0]\<close>. The division of two Python integers
  raises on zero; \<open>int\<close> of the quotient of two counts is their integer quotient. The
  radius column is read (and chunked) before the mean is taken.\<close>

definition averaged_profile :: "table \<Rightarrow> nat \<Rightarrow> int list \<Rightarrow> real list list result" where
  "averaged_profile d ntsteps vartuple =
     (if ntsteps = 0 then Inl ZeroDivisionError
      else let nztot = length (rows d) div ntsteps in
        bind_result (select_cols d vartuple) (\<lambda>donnee.
        bind_result (chunks donnee nztot) (\<lambda>donnee_chunk.
        bind_result (select_cols d [0]) (\<lambda>radius.
        mean_axis0 donnee_chunk))))"

subsection \<open>Theoretical initial profile: \<open>initprof\<close> in \<open>rprof_cmd\<close>\<close>

text \<open>\<open>x ** y\<close> on Python floats. A positive base gives \<open>x powr y\<close>. Zero to a
  negative power raises. A negative base with an exponent that is not a whole number
  gives a complex number in Python 3, which raises \<open>TypeError\<close> as soon as it is
  compared (\<open>rpos < rsup\<close>): the model raises it here.\<close>

definition py_pow :: "real \<Rightarrow> real \<Rightarrow> real result" where
  "py_pow x y =
     (if 0 < x then Inr (x powr y)
      else if x = 0 then (if y < 0 then Inl ZeroDivisionError else if y = 0 then Inr 1 else Inr 0)
      else if y = of_int \<lfloor>y\<rfloor> then Inr (x powi \<lfloor>y\<rfloor>)
      else Inl TypeError)"

text \<open>The critical radius, from the parameters of the run (Python floats).\<close>

definition rsup_of :: "real \<Rightarrow> real \<Rightarrow> real \<Rightarrow> real \<Rightarrow> real \<Rightarrow> real result" where
  "rsup_of xieut k_fe xi0l rmin rmax =
     bind_result (py_div xi0l xieut) (\<lambda>xired.
     bind_result (py_div 1 (1 - k_fe)) (\<lambda>e.
     bind_result (py_pow xired e) (\<lambda>p.
     py_pow (rmax ^ 3 - p * (rmax ^ 3 - rmin ^ 3)) (1 / 3))))"

text \<open>The closure \<open>initprof(rpos)\<close>, its captured variables as parameters. It is
  called on the entries of a numpy array, so its arithmetic does not raise; the model
  is exact where the shell-volume ratio is positive.\<close>

definition initprof :: "real \<Rightarrow> real \<Rightarrow> real \<Rightarrow> real \<Rightarrow> real \<Rightarrow> real \<Rightarrow> real \<Rightarrow> real" where
  "initprof xi0s k_fe rmin rmax xieut rsup rpos =
     (if rpos < rsup
      then xi0s * ((rmax ^ 3 - rmin ^ 3) / (rmax ^ 3 - rpos ^ 3)) powr (1 - k_fe)
      else xieut)"

subsection \<open>Names of the figure files\<close>

text \<open>\<open>str\<close> of a Python integer, and \<open>s.replace(' ', '_')\<close>.\<close>

fun str_nat :: "nat \<Rightarrow> string" where
  "str_nat n =
     (if n < 10 then [''0123456789'' ! n]
      else str_nat (n div 10) @ [''0123456789'' ! (n mod 10)])"

declare str_nat.simps [simp del]

definition str_int :: "int \<Rightarrow> string" where
  "str_int i = (if i < 0 then CHR ''-'' # str_nat (nat (- i)) else str_nat (nat i))"

definition replace_space :: "string \<Rightarrow> string" where
  "replace_space s = map (\<lambda>c. if c = CHR '' '' then CHR ''_'' else c) s"

definition timename :: "int \<Rightarrow> int \<Rightarrow> int \<Rightarrow> string" where
  "timename istart ilast istep =
     str_int istart @ ''_'' @ str_int (ilast - 1) @ ''_'' @ str_int istep"

text \<open>The name \<open>plotprofiles\<close> saves its figure under, from \<open>quant[0]\<close> and
  \<open>args.timestep\<close>; and the name \<open>plotaveragedprofiles\<close> saves under.\<close>

definition plotprofiles_filename :: "string \<Rightarrow> int \<Rightarrow> int \<Rightarrow> int \<Rightarrow> string" where
  "plotprofiles_filename quant0 istart ilast istep =
     (if quant0 = ''Grid'' then ''Grid'' @ timename istart ilast istep @ ''.pdf''
      else if quant0 = ''Grid km'' then ''Gridkm'' @ timename istart ilast istep @ ''.pdf''
      else replace_space quant0 @ timename istart ilast istep @ ''.pdf'')"

definition plotaveragedprofiles_filename :: "string \<Rightarrow> string" where
  "plotaveragedprofiles_filename quant0 =
     ''fig_'' @ ''average'' @ replace_space quant0 @ ''.pdf''"

subsection \<open>The difference tracking of \<open>rprof_cmd\<close>\<close>

text \<open>The four options of \<open>args\<close> that decide the difference tracking. The first
  statement of \<open>rprof_cmd\<close> rewrites \<open>args.plot_difference\<close>; the block that saves
  the figure and writes \<open>statmin.dat\<close> runs under the rewritten option.\<close>

record args =
  plot_conctheo :: bool
  plot_temperature :: bool
  plot_concentration :: bool
  plot_difference :: bool

definition force_difference :: "args \<Rightarrow> args" where
  "force_difference a =
     (if \<not> (plot_conctheo a \<and> plot_temperature a \<and> plot_concentration a)
      then a\<lparr>plot_difference := False\<rparr> else a)"

definition difference_block :: "args \<Rightarrow> string \<Rightarrow> string list" where
  "difference_block a tname =
     (if plot_difference a
      then [''Difference_to_overturned'' @ tname @ ''.pdf'', ''statmin.dat'']
      else [])"

text \<open>Between the switch and the block, \<open>rprof_cmd\<close> computes the critical radius
  when \<open>plot_conctheo\<close> is set, with \<open>rmin = rcmb\<close> and \<open>rmax = rcmb + 1\<close>; its
  divisions of Python floats raise \<open>ZeroDivisionError\<close>, and nothing else raises
  there (a complex critical radius raises only once \<open>initprof\<close> compares it, inside
  the plots).\<close>

definition conctheo_setup :: "args \<Rightarrow> real \<Rightarrow> real \<Rightarrow> real \<Rightarrow> real \<Rightarrow> unit result" where
  "conctheo_setup a xieut k_fe xi0l rcmb =
     (if plot_conctheo a \<and> rsup_of xieut k_fe xi0l rcmb (rcmb + 1) = Inl ZeroDivisionError
      then Inl ZeroDivisionError else Inr ())"

text \<open>The run of \<open>rprof_cmd\<close> up to the end of the difference block, and the list of
  the files that block writes. The loading of the data and the loops over the profile
  plots and the averaged plots are not modelled: \<open>plotting\<close> is their outcome, the
  exception they raise or the \<open>timename\<close> they bind (the opening of the difference
  figure and the lookup of \<open>ra0\<close> ahead of the setup are counted with them; which of
  two exceptions comes first is not modelled). The run parameters are arguments of the
  model: their lookups in \<open>args.par_nml\<close> are taken to succeed. An exception
  anywhere before the block leaves no file of the block written.\<close>

definition rprof_cmd ::
  "args \<Rightarrow> real \<Rightarrow> real \<Rightarrow> real \<Rightarrow> real \<Rightarrow> string result \<Rightarrow> string list result" where
  "rprof_cmd args0 xieut k_fe xi0l rcmb plotting =
     (let a = force_difference args0 in
      bind_result (conctheo_setup a xieut k_fe xi0l rcmb) (\<lambda>_.
      bind_result plotting (\<lambda>tname.
      Inr (difference_block a tname))))"

subsection \<open>Auxiliary notions of the statements\<close>

text \<open>The sum numpy's \<open>trapz\<close> forms on arrays of equal length, and the sum of the
  cubes of the gaps between successive radii.\<close>

definition trap_sum :: "real list \<Rightarrow> real list \<Rightarrow> real" where
  "trap_sum y x =
     sum_list (map (\<lambda>v. v / 2) (map2 (*) (np_diff x) (map2 (+) (tl y) (butlast y))))"

fun cube_gaps :: "real list \<Rightarrow> real" where
  "cube_gaps (a # b # xs) = (b - a) ^ 3 + cube_gaps (b # xs)"
| "cube_gaps _ = 0"

text \<open>An example of a profile table: three rows of 64 columns, of which the depth
  (column 0), the temperature (column 1), the advection (column 60) and the grid
  coordinate (column 63) are set.\<close>

definition profile_row :: "real \<Rightarrow> real \<Rightarrow> real \<Rightarrow> real \<Rightarrow> real list" where
  "profile_row z t qadv zg = [z, t] @ replicate 58 0 @ [qadv, 0, 0, zg]"

definition example_table :: "real \<Rightarrow> table" where
  "example_table z0 =
     \<lparr>ncols = 64,
      rows = [profile_row z0 1 2 0,
              profile_row (1 / 2) (1 / 2) 3 (3 / 8),
              profile_row (3 / 4) (1 / 4) 5 (5 / 8)]\<rparr>"

section \<open>Properties\<close>

subsection \<open>Results and broadcasting\<close>

lemma bind_result_Inr: "bind_result m f = Inr v \<longleftrightarrow> (\<exists>x. m = Inr x \<and> f x = Inr v)"
  by (cases m) (simp_all add: bind_result_def)

lemma bind_result_simps:
  "bind_result (Inr x) f = f x" "bind_result (Inl e) f = Inl e"
  by (simp_all add: bind_result_def)

lemma np_binop_long:
  assumes "np_binop f xs ys = Inr zs" "2 \<le> length xs" "2 \<le> length ys"
  shows "length xs = length ys \<and> zs = map2 f xs ys"
  using assms by (auto simp: np_binop_def split: if_splits)

lemma np_binop_same: "length xs = length ys \<Longrightarrow> np_binop f xs ys = Inr (map2 f xs ys)"
  by (simp add: np_binop_def)

subsection \<open>Indexing and slicing\<close>

lemma get_first: "xs \<noteq> [] \<Longrightarrow> get xs 0 = Inr (xs ! 0)"
  by (simp add: get_def norm_index_def bind_result_simps)

lemma get_second: "2 \<le> length xs \<Longrightarrow> get xs 1 = Inr (xs ! 1)"
  by (simp add: get_def norm_index_def bind_result_simps)

lemma get_last: "xs \<noteq> [] \<Longrightarrow> get xs (- 1) = Inr (last xs)"
  by (simp add: get_def norm_index_def bind_result_simps last_conv_nth nat_diff_distrib')

lemma get_before_last: "2 \<le> length xs \<Longrightarrow> get xs (- 2) = Inr (xs ! (length xs - 2))"
proof -
  assume a: "2 \<le> length xs"
  then have "nat (int (length xs) - 2) = length xs - 2" by linarith
  with a show ?thesis by (simp add: get_def norm_index_def bind_result_simps)
qed

lemma length_py_slice:
  "0 \<le> a \<Longrightarrow> a \<le> b \<Longrightarrow> b \<le> int (length xs) \<Longrightarrow> length (py_slice a b xs) = nat (b - a)"
  by (auto simp: py_slice_def clip_bound_def Let_def min_def)

lemma col_slice_ok:
  assumes "0 \<le> a" "a \<le> b" "b \<le> int (length (rows d))" "0 \<le> c" "c < int (ncols d)"
  shows "\<exists>v. col_slice d a b c = Inr v \<and> length v = nat (b - a)"
  using assms by (simp add: col_slice_def norm_index_def bind_result_simps length_py_slice)

lemma cell_ok:
  assumes "0 \<le> i" "i < int (length (rows d))" "0 \<le> c" "c < int (ncols d)"
  shows "cell d i c = Inr (rows d ! nat i ! nat c)"
  using assms by (simp add: cell_def norm_index_def bind_result_simps)

lemma cell_missing_row:
  assumes "int (length (rows d)) \<le> i"
  shows "cell d i c = Inl IndexError"
  using assms by (simp add: cell_def norm_index_def bind_result_simps)

subsection \<open>Energy balance\<close>

text \<open>
  Claim C1. Whenever \<open>_calc_energy\<close> returns, the advective and the conductive flux
  arrays it returns have the same length, the total flux array has that length too,
  and at every depth index the total is the sum of the advective and the conductive
  flux.
\<close>

theorem calc_energy_total_is_sum:
  assumes "calc_energy d ir0 ir1 = Inr (qtot, qadv, qcond, zgrid)"
  shows "length qadv = length qcond \<and> length qtot = length qadv \<and>
         (\<forall>i < length qtot. qtot ! i = qadv ! i + qcond ! i)"
proof -
  from assms obtain qa qc qcond0 qtop where
    qadv: "qadv = (0 # qa) @ [0]" and qcond: "qcond = (qcond0 # qc) @ [qtop]"
    and total: "np_binop (+) qadv qcond = Inr qtot"
    unfolding calc_energy_def Let_def bind_result_Inr by auto
  have "2 \<le> length qadv" "2 \<le> length qcond"
    using qadv qcond by simp_all
  from np_binop_long[OF total this]
  have "length qadv = length qcond" and "qtot = map2 (+) qadv qcond"
    by simp_all
  then show ?thesis by simp
qed

text \<open>The example table, and the slice of its rows 0 and 1.\<close>

lemmas eval_calc_energy =
  calc_energy_def bind_result_def col_slice_def cell_def norm_index_def py_slice_def
  clip_bound_def np_binop_def py_div_def example_table_def profile_row_def nth_append Let_def

lemma calc_energy_example:
  "calc_energy (example_table (1 / 4)) 0 2 = Inr ([0, 4, 1], [0, 2, 0], [0, 2, 1], [0, 3 / 8, 1])"
  by (simp add: eval_calc_energy)

theorem calc_energy_total_is_sum_witness:
  "calc_energy (example_table (1 / 4)) 0 2 = Inr ([0, 4, 1], [0, 2, 0], [0, 2, 1], [0, 3 / 8, 1])
   \<and> length [0, 2, 0 :: real] = length [0, 2, 1 :: real]
   \<and> [0, 4, 1 :: real] ! 1 = [0, 2, 0] ! 1 + [0, 2, 1] ! 1"
  using calc_energy_example calc_energy_total_is_sum [OF calc_energy_example]
  by simp

text \<open>
  Claim C9, as amended. For a rectangular table of at least 64 columns and row
  indices \<open>0 \<le> ir0\<close>, \<open>ir0 + 2 \<le> ir1\<close>, \<open>ir1\<close> less than the number of rows, whose
  depth is not 0 in row \<open>ir0\<close> and not 1 in row \<open>ir1\<close>, \<open>_calc_energy\<close> returns
  four arrays of length \<open>ir1 - ir0 + 1\<close> each, and the last conductive flux is the
  top-boundary term of row \<open>ir1\<close> itself. When \<open>ir1\<close> is not below the number of
  rows, \<open>_calc_energy\<close> raises.
\<close>

theorem calc_energy_shape:
  "(wf_table d \<and> 63 < ncols d \<and> 0 \<le> ir0 \<and> ir0 + 2 \<le> ir1 \<and> ir1 < int (length (rows d)) \<and>
    rows d ! nat ir0 ! 0 \<noteq> 0 \<and> rows d ! nat ir1 ! 0 \<noteq> 1 \<longrightarrow>
    (\<exists>qtot qadv qcond zgrid.
       calc_energy d ir0 ir1 = Inr (qtot, qadv, qcond, zgrid) \<and>
       length qtot = nat (ir1 - ir0 + 1) \<and> length qadv = nat (ir1 - ir0 + 1) \<and>
       length qcond = nat (ir1 - ir0 + 1) \<and> length zgrid = nat (ir1 - ir0 + 1) \<and>
       last qcond = rows d ! nat ir1 ! 1 / (1 - rows d ! nat ir1 ! 0))) \<and>
   (int (length (rows d)) \<le> ir1 \<longrightarrow> (\<exists>e. calc_energy d ir0 ir1 = Inl e))"
proof (intro conjI impI)
  assume h: "wf_table d \<and> 63 < ncols d \<and> 0 \<le> ir0 \<and> ir0 + 2 \<le> ir1 \<and> ir1 < int (length (rows d)) \<and>
    rows d ! nat ir0 ! 0 \<noteq> 0 \<and> rows d ! nat ir1 ! 0 \<noteq> 1"
  obtain zg where zg: "col_slice d ir0 ir1 63 = Inr zg" "length zg = nat (ir1 - ir0)"
    using col_slice_ok[of ir0 ir1 d 63] h by auto
  obtain zhi where zhi: "col_slice d (ir0 + 1) ir1 0 = Inr zhi" "length zhi = nat (ir1 - ir0 - 1)"
    using col_slice_ok[of "ir0 + 1" ir1 d 0] h by auto
  obtain zlo where zlo: "col_slice d ir0 (ir1 - 1) 0 = Inr zlo" "length zlo = nat (ir1 - ir0 - 1)"
    using col_slice_ok[of ir0 "ir1 - 1" d 0] h by auto
  obtain qa where qa: "col_slice d ir0 (ir1 - 1) 60 = Inr qa" "length qa = nat (ir1 - ir0 - 1)"
    using col_slice_ok[of ir0 "ir1 - 1" d 60] h by auto
  obtain tlo where tlo: "col_slice d ir0 (ir1 - 1) 1 = Inr tlo" "length tlo = nat (ir1 - ir0 - 1)"
    using col_slice_ok[of ir0 "ir1 - 1" d 1] h by auto
  obtain thi where thi: "col_slice d (ir0 + 1) ir1 1 = Inr thi" "length thi = nat (ir1 - ir0 - 1)"
    using col_slice_ok[of "ir0 + 1" ir1 d 1] h by auto
  have c: "cell d ir0 1 = Inr (rows d ! nat ir0 ! 1)" "cell d ir0 0 = Inr (rows d ! nat ir0 ! 0)"
    "cell d ir1 1 = Inr (rows d ! nat ir1 ! 1)" "cell d ir1 0 = Inr (rows d ! nat ir1 ! 0)"
    using cell_ok[of ir0 d 1] cell_ok[of ir0 d 0] cell_ok[of ir1 d 1] cell_ok[of ir1 d 0] h
    by simp_all
  have n: "nat (ir1 - ir0 + 1) = Suc (Suc (nat (ir1 - ir0 - 1)))"
    "nat (ir1 - ir0) = Suc (nat (ir1 - ir0 - 1))"
    using h by linarith+
  show "\<exists>qtot qadv qcond zgrid.
       calc_energy d ir0 ir1 = Inr (qtot, qadv, qcond, zgrid) \<and>
       length qtot = nat (ir1 - ir0 + 1) \<and> length qadv = nat (ir1 - ir0 + 1) \<and>
       length qcond = nat (ir1 - ir0 + 1) \<and> length zgrid = nat (ir1 - ir0 + 1) \<and>
       last qcond = rows d ! nat ir1 ! 1 / (1 - rows d ! nat ir1 ! 0)"
    using h zg zhi zlo qa tlo thi c n
    by (simp add: calc_energy_def bind_result_simps np_binop_same py_div_def Let_def)
next
  assume "int (length (rows d)) \<le> ir1"
  then have missing: "cell d ir1 1 = Inl IndexError"
    by (rule cell_missing_row)
  show "\<exists>e. calc_energy d ir0 ir1 = Inl e"
  proof (cases "calc_energy d ir0 ir1")
    case (Inl e)
    then show ?thesis by blast
  next
    case (Inr r)
    then obtain t1 where "cell d ir1 1 = Inr t1"
      unfolding calc_energy_def Let_def bind_result_Inr by blast
    with missing show ?thesis by simp
  qed
qed

theorem calc_energy_shape_witness:
  "(\<exists>qtot qadv qcond zgrid.
       calc_energy (example_table (1 / 4)) 0 2 = Inr (qtot, qadv, qcond, zgrid) \<and>
       length qtot = 3 \<and> length qadv = 3 \<and> length qcond = 3 \<and> length zgrid = 3 \<and>
       last qcond = 1) \<and>
   (\<exists>e. calc_energy (example_table (1 / 4)) 0 3 = Inl e)"
  using calc_energy_shape [of "example_table (1 / 4)" 0 2]
    calc_energy_shape [of "example_table (1 / 4)" 0 3]
  by (simp add: wf_table_def example_table_def profile_row_def nth_append)

text \<open>
  Claim C9 as stated fails on a table whose depth is 0 in row \<open>ir0\<close>: the bottom
  boundary term divides two Python floats and raises. It also fails for a negative
  \<open>ir0\<close>, which the slices read from the end of the table: the depth array then has
  length 1 and the flux arrays length 2, where the claim says 3.
\<close>

theorem calc_energy_shape_counterexample:
  "calc_energy (example_table 0) 0 2 = Inl ZeroDivisionError \<and>
   calc_energy (example_table (1 / 4)) (- 1) 1 = Inr ([1, 1], [0, 0], [1, 1], [1]) \<and>
   length [1 :: real] \<noteq> nat (1 - (- 1) + 1)"
  by (simp add: eval_calc_energy)

subsection \<open>Boundary extrapolation\<close>

lemma extrap_unfold:
  assumes "length xpoints = length ypoints" "2 \<le> length xpoints"
  shows "extrap xpos xpoints ypoints =
     Inr (map2 (\<lambda>x y. if x > last xpoints
                 then last ypoints + (x - last xpoints) * (last ypoints - ypoints ! (length ypoints - 2))
                        / (last xpoints - xpoints ! (length xpoints - 2))
                 else y) xpos
          (map2 (\<lambda>x y. if x < xpoints ! 0
                  then ypoints ! 0 + (x - xpoints ! 0) * (ypoints ! 0 - ypoints ! 1) / (xpoints ! 0 - xpoints ! 1)
                  else y) xpos (map (interp1 xpoints ypoints) xpos)))"
proof -
  have ne: "xpoints \<noteq> []" "ypoints \<noteq> []" "2 \<le> length ypoints"
    using assms by auto
  show ?thesis
    unfolding extrap_def np_interp_def Let_def
    using assms ne
    by (simp add: bind_result_simps get_first get_second get_last get_before_last)
qed

lemma extrap_nth:
  assumes "length xpoints = length ypoints" "2 \<le> length xpoints" "i < length xpos"
    "extrap xpos xpoints ypoints = Inr ypos"
  shows "ypos ! i =
     (if xpos ! i > last xpoints
      then last ypoints + (xpos ! i - last xpoints) * (last ypoints - ypoints ! (length ypoints - 2))
                        / (last xpoints - xpoints ! (length xpoints - 2))
      else if xpos ! i < xpoints ! 0
      then ypoints ! 0 + (xpos ! i - xpoints ! 0) * (ypoints ! 0 - ypoints ! 1) / (xpoints ! 0 - xpoints ! 1)
      else interp1 xpoints ypoints (xpos ! i))"
  using assms(3,4) unfolding extrap_unfold[OF assms(1,2)] by auto

lemma sorted_nth_less:
  "sorted_wrt (<) (xp :: real list) \<Longrightarrow> i < j \<Longrightarrow> j < length xp \<Longrightarrow> xp ! i < xp ! j"
  by (simp add: sorted_wrt_nth_less)

lemma sorted_nth_le:
  "sorted_wrt (<) (xp :: real list) \<Longrightarrow> i \<le> j \<Longrightarrow> j < length xp \<Longrightarrow> xp ! i \<le> xp ! j"
  using sorted_nth_less[of xp i j] by (cases "i = j") auto

lemma length_takeWhile_sorted:
  assumes "sorted_wrt (<) (xp :: real list)" "k < length xp" "xp ! k \<le> x"
    "Suc k < length xp \<longrightarrow> x < xp ! Suc k"
  shows "length (takeWhile (\<lambda>a. a \<le> x) xp) = Suc k"
proof -
  let ?m = "length (takeWhile (\<lambda>a. a \<le> x) xp)"
  have "xp ! i \<le> x" if "i < Suc k" for i
  proof -
    from that have "xp ! i \<le> xp ! k"
      by (intro sorted_nth_le[OF assms(1) _ assms(2)]) simp
    with assms(3) show ?thesis by simp
  qed
  then have lower: "Suc k \<le> ?m"
    using assms(2) by (intro length_takeWhile_less_P_nth) auto
  have upper: "?m \<le> Suc k"
  proof (rule ccontr)
    assume "\<not> ?m \<le> Suc k"
    then have lt: "Suc k < ?m" by simp
    have "?m \<le> length xp" by (rule length_takeWhile_le)
    with lt have inb: "Suc k < length xp" by simp
    from lt have "takeWhile (\<lambda>a. a \<le> x) xp ! Suc k \<in> set (takeWhile (\<lambda>a. a \<le> x) xp)"
      by (rule nth_mem)
    then have "takeWhile (\<lambda>a. a \<le> x) xp ! Suc k \<le> x"
      by (rule set_takeWhileD[THEN conjunct2])
    moreover have "takeWhile (\<lambda>a. a \<le> x) xp ! Suc k = xp ! Suc k"
      using lt by (rule takeWhile_nth)
    ultimately show False using assms(4) inb by simp
  qed
  from lower upper show ?thesis by simp
qed

lemma interp1_segment:
  assumes s: "sorted_wrt (<) xp" and len: "length fp = length xp"
    and j: "Suc j < length xp" and lo: "xp ! j \<le> x" and hi: "x \<le> xp ! Suc j"
  shows "interp1 xp fp x = fp ! j + (x - xp ! j) * (fp ! Suc j - fp ! j) / (xp ! Suc j - xp ! j)"
proof -
  have ne: "xp \<noteq> []" using j by auto
  have "xp ! Suc j \<le> xp ! (length xp - 1)"
    using j by (intro sorted_nth_le[OF s]) auto
  then have A: "\<not> x > last xp"
    using hi ne by (simp add: last_conv_nth)
  have "xp ! 0 \<le> xp ! j"
    using j by (intro sorted_nth_le[OF s]) auto
  then have B: "\<not> x < hd xp"
    using lo ne by (simp add: hd_conv_nth)
  have step: "xp ! j < xp ! Suc j"
    using j by (intro sorted_nth_less[OF s]) auto
  show ?thesis
  proof (cases "x < xp ! Suc j")
    case True
    have m: "length (takeWhile (\<lambda>a. a \<le> x) xp) = Suc j"
      using j lo True by (intro length_takeWhile_sorted[OF s]) auto
    have "j \<noteq> length xp - 1" using j by simp
    then show ?thesis
      using A B m by (simp add: interp1_def)
  next
    case False
    then have eq: "x = xp ! Suc j" using hi by simp
    have "Suc (Suc j) < length xp \<longrightarrow> x < xp ! Suc (Suc j)"
      unfolding eq using sorted_nth_less[OF s, of "Suc j" "Suc (Suc j)"] by simp
    then have m: "length (takeWhile (\<lambda>a. a \<le> x) xp) = Suc (Suc j)"
      using j eq by (intro length_takeWhile_sorted[OF s]) auto
    have val: "fp ! Suc j = fp ! j + (xp ! Suc j - xp ! j) * (fp ! Suc j - fp ! j) / (xp ! Suc j - xp ! j)"
      using step by simp
    show ?thesis
      using A B m val eq by (simp add: interp1_def)
  qed
qed

text \<open>
  Claim C7. With as many y-values as x-samples, and at least two of them, \<open>_extrap\<close>
  raises nothing and returns an array of the length of the target positions, whatever
  the order of the x-samples.
\<close>

theorem extrap_total:
  assumes "length xpoints = length ypoints" "2 \<le> length xpoints"
  shows "\<exists>ypos. extrap xpos xpoints ypoints = Inr ypos \<and> length ypos = length xpos"
  by (simp add: extrap_unfold[OF assms])

lemmas eval_extrap =
  extrap_def np_interp_def interp1_def get_def norm_index_def bind_result_def Let_def

lemma extrap_unordered_example:
  "extrap [0, 2, 7] [3, 1, 3, 2] [1, 0, 4, 2] = Inr [- 1 / 2, 1 / 2, 12]"
  by (simp add: eval_extrap)

theorem extrap_total_witness:
  "length [3, 1, 3, 2 :: real] = length [1, 0, 4, 2 :: real] \<and>
   2 \<le> length [3, 1, 3, 2 :: real] \<and>
   (\<exists>ypos. extrap [0, 2, 7] [3, 1, 3, 2] [1, 0, 4, 2] = Inr ypos \<and>
           length ypos = length [0, 2, 7 :: real])"
  using extrap_total [of "[3, 1, 3, 2]" "[1, 0, 4, 2]" "[0, 2, 7]"]
  by simp

text \<open>
  Claim C5. For strictly increasing x-samples, at least two, with their y-values,
  \<open>_extrap\<close> returns an array of the length of the target positions in which
  a position inside a segment of the samples gets the linear interpolation of that
  segment, a position before the first sample the line through the first two samples,
  and a position beyond the last sample the line through the last two samples.
\<close>

theorem extrap_interpolates:
  assumes "sorted_wrt (<) xpoints" "length ypoints = length xpoints" "2 \<le> length xpoints"
  shows "\<exists>ypos. extrap xpos xpoints ypoints = Inr ypos \<and> length ypos = length xpos \<and>
     (\<forall>i < length xpos.
        (\<forall>j. Suc j < length xpoints \<and> xpoints ! j \<le> xpos ! i \<and> xpos ! i \<le> xpoints ! Suc j \<longrightarrow>
           ypos ! i = ypoints ! j + (xpos ! i - xpoints ! j)
                        * (ypoints ! Suc j - ypoints ! j) / (xpoints ! Suc j - xpoints ! j)) \<and>
        (xpos ! i < xpoints ! 0 \<longrightarrow>
           ypos ! i = ypoints ! 0 + (xpos ! i - xpoints ! 0)
                        * (ypoints ! 1 - ypoints ! 0) / (xpoints ! 1 - xpoints ! 0)) \<and>
        (last xpoints < xpos ! i \<longrightarrow>
           ypos ! i = last ypoints + (xpos ! i - last xpoints)
                        * (last ypoints - ypoints ! (length ypoints - 2))
                        / (last xpoints - xpoints ! (length xpoints - 2))))"
proof -
  have len: "length xpoints = length ypoints" using assms(2) by simp
  obtain ypos where ypos: "extrap xpos xpoints ypoints = Inr ypos" "length ypos = length xpos"
    using extrap_unfold[OF len assms(3)] by simp
  have ne: "xpoints \<noteq> []" using assms(3) by auto
  have first_last: "xpoints ! 0 \<le> last xpoints"
    using sorted_nth_le[OF assms(1), of 0 "length xpoints - 1"] ne by (simp add: last_conv_nth)
  have slope: "(ypoints ! 0 - ypoints ! 1) / (xpoints ! 0 - xpoints ! 1)
               = (ypoints ! 1 - ypoints ! 0) / (xpoints ! 1 - xpoints ! 0)"
    using minus_divide_divide[of "ypoints ! 1 - ypoints ! 0" "xpoints ! 1 - xpoints ! 0"]
    by simp
  have "\<forall>i < length xpos.
        (\<forall>j. Suc j < length xpoints \<and> xpoints ! j \<le> xpos ! i \<and> xpos ! i \<le> xpoints ! Suc j \<longrightarrow>
           ypos ! i = ypoints ! j + (xpos ! i - xpoints ! j)
                        * (ypoints ! Suc j - ypoints ! j) / (xpoints ! Suc j - xpoints ! j)) \<and>
        (xpos ! i < xpoints ! 0 \<longrightarrow>
           ypos ! i = ypoints ! 0 + (xpos ! i - xpoints ! 0)
                        * (ypoints ! 1 - ypoints ! 0) / (xpoints ! 1 - xpoints ! 0)) \<and>
        (last xpoints < xpos ! i \<longrightarrow>
           ypos ! i = last ypoints + (xpos ! i - last xpoints)
                        * (last ypoints - ypoints ! (length ypoints - 2))
                        / (last xpoints - xpoints ! (length xpoints - 2)))"
  proof (intro allI impI conjI)
    fix i j
    assume i: "i < length xpos"
      and seg: "Suc j < length xpoints \<and> xpoints ! j \<le> xpos ! i \<and> xpos ! i \<le> xpoints ! Suc j"
    have "xpoints ! 0 \<le> xpoints ! j"
      using seg by (intro sorted_nth_le[OF assms(1)]) auto
    then have lo: "\<not> xpos ! i < xpoints ! 0" using seg by simp
    have "xpoints ! Suc j \<le> xpoints ! (length xpoints - 1)"
      using seg by (intro sorted_nth_le[OF assms(1)]) auto
    then have hi: "\<not> last xpoints < xpos ! i" using seg ne by (simp add: last_conv_nth)
    have "ypos ! i = interp1 xpoints ypoints (xpos ! i)"
      using extrap_nth[OF len assms(3) i ypos(1)] lo hi by simp
    also have "\<dots> = ypoints ! j + (xpos ! i - xpoints ! j)
                        * (ypoints ! Suc j - ypoints ! j) / (xpoints ! Suc j - xpoints ! j)"
      using seg by (intro interp1_segment[OF assms(1,2)]) auto
    finally show "ypos ! i = ypoints ! j + (xpos ! i - xpoints ! j)
                        * (ypoints ! Suc j - ypoints ! j) / (xpoints ! Suc j - xpoints ! j)" .
  next
    fix i
    assume i: "i < length xpos" and below: "xpos ! i < xpoints ! 0"
    then have "\<not> last xpoints < xpos ! i" using first_last by simp
    then have "ypos ! i = ypoints ! 0 + (xpos ! i - xpoints ! 0)
                 * (ypoints ! 0 - ypoints ! 1) / (xpoints ! 0 - xpoints ! 1)"
      using extrap_nth[OF len assms(3) i ypos(1)] below by simp
    also have "\<dots> = ypoints ! 0 + (xpos ! i - xpoints ! 0)
                 * ((ypoints ! 0 - ypoints ! 1) / (xpoints ! 0 - xpoints ! 1))"
      by simp
    finally show "ypos ! i = ypoints ! 0 + (xpos ! i - xpoints ! 0)
                        * (ypoints ! 1 - ypoints ! 0) / (xpoints ! 1 - xpoints ! 0)"
      unfolding slope by simp
  next
    fix i
    assume i: "i < length xpos" and above: "last xpoints < xpos ! i"
    show "ypos ! i = last ypoints + (xpos ! i - last xpoints)
                        * (last ypoints - ypoints ! (length ypoints - 2))
                        / (last xpoints - xpoints ! (length xpoints - 2))"
      using extrap_nth[OF len assms(3) i ypos(1)] above by simp
  qed
  with ypos show ?thesis by blast
qed

lemma extrap_example:
  "extrap [- 1, 1 / 2, 2, 5] [0, 1, 3] [0, 2, 3] = Inr [- 2, 1, 5 / 2, 4]"
  by (simp add: eval_extrap)

theorem extrap_interpolates_witness:
  "sorted_wrt (<) [0, 1, 3 :: real] \<and> length [0, 2, 3 :: real] = length [0, 1, 3 :: real] \<and>
   2 \<le> length [0, 1, 3 :: real] \<and>
   extrap [- 1, 1 / 2, 2, 5] [0, 1, 3] [0, 2, 3] = Inr [- 2, 1, 5 / 2, 4] \<and>
   [- 2, 1, 5 / 2, 4 :: real] ! 2 = [0, 2, 3] ! 1 + ([- 1, 1 / 2, 2, 5] ! 2 - [0, 1, 3] ! 1)
        * ([0, 2, 3] ! Suc 1 - [0, 2, 3] ! 1) / ([0, 1, 3] ! Suc 1 - [0, 1, 3] ! 1)"
  using extrap_example extrap_interpolates [of "[0, 1, 3]" "[0, 2, 3]" "[- 1, 1 / 2, 2, 5]"]
  by simp

subsection \<open>Volumetric norm\<close>

lemma trapz_same_length: "length y = length x \<Longrightarrow> trapz y x = Inr (trap_sum y x)"
  by (simp add: trapz_def trap_sum_def np_binop_same np_diff_def bind_result_simps)

lemma trap_sum_single: "trap_sum [v] [a] = 0"
  by (simp add: trap_sum_def np_diff_def)

lemma trap_sum_step:
  "trap_sum (v # w # ys) (a # b # xs) = (b - a) * (w + v) / 2 + trap_sum (w # ys) (b # xs)"
  by (simp add: trap_sum_def np_diff_def)

lemma trapezoid_cube:
  "(b - a) * (k * b ^ 2 + k * a ^ 2) / 2 = k * ((b ^ 3 - a ^ 3) / 3 + (b - a) ^ 3 / 6)" for a b k :: real
  by (simp add: power2_eq_square power3_eq_cube field_simps)

lemma trap_sum_squares:
  "r \<noteq> [] \<Longrightarrow>
   trap_sum (map (\<lambda>v. k * v ^ 2) r) r = k * ((last r ^ 3 - hd r ^ 3) / 3 + cube_gaps r / 6)"
proof (induction r rule: list_nonempty_induct)
  case (single a)
  show ?case by (simp add: trap_sum_single)
next
  case (cons a r)
  then obtain b xs where r: "r = b # xs" by (cases r) auto
  have "trap_sum (map (\<lambda>v. k * v ^ 2) (a # r)) (a # r) =
        (b - a) * (k * b ^ 2 + k * a ^ 2) / 2 +
             k * ((last r ^ 3 - hd r ^ 3) / 3 + cube_gaps r / 6)"
    using cons.IH unfolding r by (simp add: trap_sum_step)
  also have "\<dots> = k * ((b ^ 3 - a ^ 3) / 3 + (b - a) ^ 3 / 6)
                 + k * ((last r ^ 3 - b ^ 3) / 3 + cube_gaps r / 6)"
    unfolding trapezoid_cube by (simp add: r)
  also have "\<dots> = k * ((last (a # r) ^ 3 - hd (a # r) ^ 3) / 3 + cube_gaps (a # r) / 6)"
    unfolding r by (simp add: algebra_simps add_divide_distrib diff_divide_distrib)
  finally show ?case .
qed

lemma cube_gaps_pos:
  "sorted_wrt (<) r \<Longrightarrow> 2 \<le> length r \<Longrightarrow> 0 < cube_gaps r"
proof (induction r rule: cube_gaps.induct)
  case (1 a b xs)
  have "a < b" using 1(2) by simp
  then have "0 < b - a" by simp
  then have first: "0 < (b - a) ^ 3" by (rule zero_less_power)
  have "0 \<le> cube_gaps (b # xs)"
  proof (cases xs)
    case Nil
    then show ?thesis by simp
  next
    case (Cons c zs)
    then have "0 < cube_gaps (b # xs)" using 1 by simp
    then show ?thesis by simp
  qed
  with first have "0 < (b - a) ^ 3 + cube_gaps (b # xs)" by (rule add_pos_nonneg)
  then show ?case by simp
qed simp_all

lemma cube_strict_mono:
  fixes a b :: real
  assumes "a < b"
  shows "a ^ 3 < b ^ 3"
proof -
  have split: "b ^ 3 - a ^ 3 = (b - a) * (((a + b) ^ 2 + (a ^ 2 + b ^ 2)) / 2)"
    by (simp add: power2_eq_square power3_eq_cube algebra_simps)
  have "a \<noteq> 0 \<or> b \<noteq> 0" using assms by auto
  then have "0 < a ^ 2 + b ^ 2" by (simp add: sum_power2_gt_zero_iff)
  moreover have "0 \<le> (a + b) ^ 2" by simp
  ultimately have "0 < (a + b) ^ 2 + (a ^ 2 + b ^ 2)" by (rule add_nonneg_pos[rotated])
  then have "0 < ((a + b) ^ 2 + (a ^ 2 + b ^ 2)) / 2" by simp
  moreover have "0 < b - a" using assms by simp
  ultimately have "0 < b ^ 3 - a ^ 3" unfolding split by (rule mult_pos_pos[rotated])
  then show ?thesis by simp
qed

lemma sorted_hd_less_last:
  assumes "sorted_wrt (<) (r :: real list)" "2 \<le> length r"
  shows "hd r < last r"
proof -
  have "r ! 0 < r ! (length r - 1)"
    using assms sorted_wrt_nth_less[of "(<)" r 0 "length r - 1"] by simp
  moreover have "r \<noteq> []" using assms by auto
  ultimately show ?thesis by (simp add: hd_conv_nth last_conv_nth)
qed

lemma normprof_constant_value:
  assumes "sorted_wrt (<) r" "2 \<le> length r"
  shows "normprof r (replicate (length r) c)
         = Inr (c ^ 2 * (1 + cube_gaps r / (2 * (last r ^ 3 - hd r ^ 3))))"
proof -
  have ne: "r \<noteq> []" using assms by auto
  have pos: "0 < last r ^ 3 - hd r ^ 3"
    using cube_strict_mono[OF sorted_hd_less_last[OF assms]] by simp
  have "map2 (*) (map (\<lambda>v. v ^ 2) (replicate (length r) c)) (map (\<lambda>v. v ^ 2) r)
           = map (\<lambda>v. c ^ 2 * v ^ 2) r"
    by (simp add: map_replicate_const zip_replicate1 map2_map_map)
  then have y: "np_binop (*) (map (\<lambda>v. v ^ 2) (replicate (length r) c)) (map (\<lambda>v. v ^ 2) r)
           = Inr (map (\<lambda>v. c ^ 2 * v ^ 2) r)"
    by (simp add: np_binop_same)
  have t: "trapz (map (\<lambda>v. c ^ 2 * v ^ 2) r) r
           = Inr (c ^ 2 * ((last r ^ 3 - hd r ^ 3) / 3 + cube_gaps r / 6))"
    using ne by (simp add: trapz_same_length trap_sum_squares)
  have "normprof r (replicate (length r) c)
        = Inr (3 / (last r ^ 3 - hd r ^ 3) * (c ^ 2 * ((last r ^ 3 - hd r ^ 3) / 3 + cube_gaps r / 6)))"
    unfolding normprof_def y t get_first[OF ne] get_last[OF ne] bind_result_simps
    by (simp add: hd_conv_nth[OF ne])
  also have "3 / (last r ^ 3 - hd r ^ 3) * (c ^ 2 * ((last r ^ 3 - hd r ^ 3) / 3 + cube_gaps r / 6))
        = c ^ 2 * (1 + cube_gaps r / (2 * (last r ^ 3 - hd r ^ 3)))"
    using pos by (simp add: field_simps)
  finally show ?thesis .
qed

text \<open>
  Claim C3, as amended. For strictly ascending radii, at least two, the norm
  \<open>_normprof\<close> computes for the constant function \<open>c\<close> is \<open>c\<^sup>2\<close> times
  \<open>1 + G / (2 (r_last\<^sup>3 - r_first\<^sup>3))\<close>, where \<open>G\<close> is the sum of the cubes of the gaps
  between successive radii. The factor is greater than 1: the trapezoidal rule
  overestimates the integral of \<open>r\<^sup>2\<close>, by an amount that depends on the radii.
\<close>

theorem normprof_constant:
  assumes "sorted_wrt (<) r" "2 \<le> length r"
  shows "normprof r (replicate (length r) c)
           = Inr (c ^ 2 * (1 + cube_gaps r / (2 * (last r ^ 3 - hd r ^ 3))))
         \<and> 0 < cube_gaps r / (2 * (last r ^ 3 - hd r ^ 3))"
proof -
  have "0 < last r ^ 3 - hd r ^ 3"
    using cube_strict_mono[OF sorted_hd_less_last[OF assms]] by simp
  then have "0 < cube_gaps r / (2 * (last r ^ 3 - hd r ^ 3))"
    using cube_gaps_pos[OF assms] by simp
  with normprof_constant_value[OF assms] show ?thesis by simp
qed

theorem normprof_constant_witness:
  "sorted_wrt (<) [1, 2, 3 :: real] \<and> 2 \<le> length [1, 2, 3 :: real] \<and>
   normprof [1, 2, 3] (replicate (length [1, 2, 3 :: real]) 2) = Inr (2 ^ 2 * (1 + 2 / (2 * 26))) \<and>
   (0 :: real) < 2 / (2 * 26)"
  using normprof_constant [of "[1, 2, 3]" 2]
  by simp

text \<open>
  Claim C3 as stated fails already on the radii 0 and 1 and the constant 1: the
  trapezoidal rule gives the integral \<open>1/2\<close>, and the norm is \<open>3/2\<close>, not 1.
\<close>

theorem normprof_constant_counterexample:
  "normprof [0, 1] [1, 1] = Inr (3 / 2) \<and> (3 / 2 :: real) \<noteq> 1 ^ 2"
  by (simp add: normprof_def get_def norm_index_def bind_result_def np_binop_def
      trapz_def np_diff_def)

subsection \<open>Profile index resolver\<close>

lemma sort3: "0 < step \<Longrightarrow> step \<le> T \<Longrightarrow> sort [0, T, step :: int] = [0, step, T]"
  by auto

lemma wrap64_id: "int64 x \<Longrightarrow> wrap64 x = x"
  by (simp add: int64_def wrap64_def)

lemma profile_rows_two:
  assumes "0 < step" "step \<le> T"
  shows "profile_rows [(0, a, b), (T, n, nz)] step
         = Inr (wrap64 (wrap64 (wrap64 (a * b)) + wrap64 (wrap64 (wrap64 (step - 0) - 1) * nz)),
                wrap64 (wrap64 (wrap64 (wrap64 (wrap64 (a * b))
                   + wrap64 (wrap64 (wrap64 (step - 0) - 1) * nz)) + nz) - 1))"
proof -
  have s: "sort (map fst [(0, a, b), (T, n, nz)] @ [step]) = [0, step, T]"
    using assms sort3[of step T] by simp
  have i: "index_of step [0, step, T] = Inr 1"
    using assms by (simp add: bind_result_simps)
  have g0: "get [(0, a, b), (T, n, nz)] (int 1 - 1) = Inr (0, a, b)"
    by (simp add: get_def norm_index_def bind_result_simps)
  have g1: "get [(0, a, b), (T, n, nz)] (int 1) = Inr (T, n, nz)"
    by (simp add: get_def norm_index_def bind_result_simps)
  have sl: "py_slice 0 (int 1) (map (\<lambda>(t, n, nz). wrap64 (n * nz)) [(0, a, b), (T, n, nz)])
            = [wrap64 (a * b)]"
    by (simp add: py_slice_def clip_bound_def)
  show ?thesis
    unfolding profile_rows_def s Let_def i bind_result_simps g0 g1 sl
    by (simp del: diff_zero)
qed

text \<open>
  Claim C2, as amended. For a resolution-change table of 64-bit integers made of a
  leading row of timestep 0 that stands for no rows of the profile table, followed by
  a single entry \<open>(T, n, nz)\<close> with \<open>0 \<le> nz\<close>, and every timestep index \<open>step\<close>
  from 1 to \<open>T\<close> whose last row index fits 64 bits (\<open>step * nz < 2\<^sup>6\<^sup>3\<close>), the
  resolver computes \<open>start_row = (step - 1) * nz\<close> and
  \<open>end_row = start_row + nz - 1\<close>.
\<close>

theorem profile_rows_constant_resolution:
  assumes "wf_nzi [(0, a, b), (T, n, nz)]" "a * b = 0" "1 \<le> step" "step \<le> T"
    and "0 \<le> nz" "step * nz < 2 ^ 63"
  shows "profile_rows [(0, a, b), (T, n, nz)] step
         = Inr ((step - 1) * nz, (step - 1) * nz + nz - 1)"
proof -
  have T: "T < 2 ^ 63"
    using assms(1) by (simp add: wf_nzi_def int64_def)
  have prod: "0 \<le> (step - 1) * nz" "(step - 1) * nz \<le> step * nz"
    using assms(3,5) by (simp_all add: mult_right_mono)
  have w00: "wrap64 0 = 0"
    by (simp add: wrap64_id int64_def)
  have w0: "wrap64 (a * b) = 0"
    unfolding assms(2) by (rule w00)
  have w1: "wrap64 (step - 0) = step"
    using assms(3,4) T by (simp add: wrap64_id int64_def)
  have w2: "wrap64 (step - 1) = step - 1"
    using assms(3,4) T by (simp add: wrap64_id int64_def)
  have w3: "wrap64 ((step - 1) * nz) = (step - 1) * nz"
    using prod assms(6) by (simp add: wrap64_id int64_def)
  have w3': "wrap64 (0 + (step - 1) * nz) = (step - 1) * nz"
    using w3 by simp
  have w4: "wrap64 ((step - 1) * nz + nz) = (step - 1) * nz + nz"
    using prod assms(5,6) by (intro wrap64_id) (simp add: int64_def algebra_simps)
  have w5: "wrap64 ((step - 1) * nz + nz - 1) = (step - 1) * nz + nz - 1"
    using prod assms(5,6) by (intro wrap64_id) (simp add: int64_def algebra_simps)
  have pos: "0 < step" using assms(3) by simp
  note e = profile_rows_two[OF pos assms(4), where a = a and b = b and n = n and nz = nz]
  show ?thesis
    unfolding e w0 w00 w1 w2 w3 w3' w4 w5 by simp
qed

theorem profile_rows_constant_resolution_witness:
  "wf_nzi [(0, 0, 0), (5, 5, 10)] \<and> (0 :: int) * 0 = 0 \<and> (1 :: int) \<le> 3 \<and> (3 :: int) \<le> 5 \<and>
   (0 :: int) \<le> 10 \<and> (3 :: int) * 10 < 2 ^ 63 \<and>
   profile_rows [(0, 0, 0), (5, 5, 10)] 3 = Inr ((3 - 1) * 10, (3 - 1) * 10 + 10 - 1)"
  using profile_rows_constant_resolution [of 0 0 5 5 10 3]
  by (simp add: wf_nzi_def int64_def)

lemmas eval_profile_rows =
  profile_rows_def get_def norm_index_def bind_result_def py_slice_def clip_bound_def
  wrap64_id int64_def

text \<open>
  Claim C2 as stated fails on a table that holds a single row: the row before the
  position of \<open>step\<close> is then that row itself (index \<open>-1\<close>), which gives a negative
  start row for a step up to the entry's timestep, and the row at the position of
  \<open>step\<close> does not exist for a later step.
\<close>

theorem profile_rows_constant_resolution_counterexample:
  "profile_rows [(5, 5, 10)] 3 = Inr (- 30, - 21) \<and> (- 30 :: int) \<noteq> (3 - 1) * 10 \<and>
   profile_rows [(5, 5, 10)] 6 = Inl IndexError"
  by (simp add: eval_profile_rows)

text \<open>Beyond the bound on \<open>step * nz\<close> the products wrap: here \<open>(step - 1) * nz\<close>
  is \<open>3037000500\<^sup>2\<close>, which exceeds \<open>2\<^sup>6\<^sup>3 - 1\<close>, and the start row is negative.\<close>

lemma wrap64_square: "wrap64 9223372037000250000 = - 9223372036709301616"
  by (simp add: wrap64_def)

lemma profile_rows_wraps:
  "profile_rows [(0, 0, 0), (4000000000, 4000000000, 3037000500)] 3037000501
   = Inr (- 9223372036709301616, - 9223372033672301117)"
  by (simp add: eval_profile_rows wrap64_square)

subsection \<open>Time-averaged profiles\<close>

lemma chunks_from_two:
  assumes "length p = length q" "p \<noteq> []"
  shows "chunks_from (length p) (p @ q) = [p, q]"
proof -
  have n: "length p \<noteq> 0" using assms(2) by simp
  have q: "q \<noteq> []" using assms n by (cases q) simp_all
  have "chunks_from (length p) (p @ q) = p # chunks_from (length p) q"
    using n assms chunks_from.simps[of "length p" "p @ q"] by simp
  also have "chunks_from (length p) q = q # chunks_from (length p) []"
    using n q assms chunks_from.simps[of "length p" q] by simp
  also have "chunks_from (length p) [] = []"
    using chunks_from.simps[of "length p" "[]"] by simp
  finally show ?thesis .
qed

lemma map2_same: "map2 f xs xs = map (\<lambda>x. f x x) xs"
  by (simp add: zip_same_conv_map)

lemma mean_of_twice: "mean_axis0 [p, p] = Inr p"
proof -
  have "add_rows p p = map (map (\<lambda>v. v + v)) p"
    by (simp add: add_rows_def map2_same)
  then have "map (map (\<lambda>v. v / real (length [p, p]))) (foldl add_rows p [p]) = p"
    by (simp add: comp_def)
  then show ?thesis
    by (simp add: mean_axis0_def)
qed

lemma select_cols_Inr:
  "select_cols d vt = Inr prof \<longleftrightarrow>
   (\<exists>ks. norm_indices (ncols d) vt = Inr ks \<and> prof = map (\<lambda>r. map (\<lambda>k. r ! k) ks) (rows d))"
  by (auto simp: select_cols_def bind_result_Inr)

text \<open>
  Claim C6. For a profile table that holds the rows of one timestep twice, at least
  one depth level, and a timestep table of two rows, the averaged profile is the
  selected columns of the single timestep, at every depth level and selected column.
\<close>

theorem average_of_identical_timesteps:
  assumes "wf_table \<lparr>ncols = n, rows = p\<rparr>" "p \<noteq> []"
    and "select_cols \<lparr>ncols = n, rows = p\<rparr> vartuple = Inr prof"
    and "select_cols \<lparr>ncols = n, rows = p\<rparr> [0] = Inr radius"
  shows "averaged_profile \<lparr>ncols = n, rows = p @ p\<rparr> 2 vartuple = Inr prof"
proof -
  from assms(3) obtain ks where ks: "norm_indices n vartuple = Inr ks"
    and prof: "prof = map (\<lambda>r. map (\<lambda>k. r ! k) ks) p"
    by (auto simp: select_cols_Inr)
  from assms(4) obtain k0 where k0: "norm_indices n [0] = Inr k0"
    by (auto simp: select_cols_Inr)
  have len: "length prof = length p" "prof \<noteq> []"
    using prof assms(2) by simp_all
  have sel: "select_cols \<lparr>ncols = n, rows = p @ p\<rparr> vartuple = Inr (prof @ prof)"
    using ks prof by (simp add: select_cols_def bind_result_simps)
  have rad: "\<exists>rd. select_cols \<lparr>ncols = n, rows = p @ p\<rparr> [0] = Inr rd"
    using k0 by (simp add: select_cols_def bind_result_simps)
  have nz: "length (rows \<lparr>ncols = n, rows = p @ p\<rparr>) div 2 = length prof"
    using len by simp
  have ch: "chunks (prof @ prof) (length prof) = Inr [prof, prof]"
    using len assms(2) chunks_from_two[of prof prof] by (simp add: chunks_def)
  from rad obtain rd where rd: "select_cols \<lparr>ncols = n, rows = p @ p\<rparr> [0] = Inr rd" ..
  show ?thesis
    unfolding averaged_profile_def Let_def nz sel bind_result_simps ch rd mean_of_twice
    by simp
qed

theorem average_of_identical_timesteps_witness:
  "wf_table \<lparr>ncols = 2, rows = [[1, 2], [3, 4]]\<rparr> \<and> [[1, 2], [3, 4 :: real]] \<noteq> [] \<and>
   select_cols \<lparr>ncols = 2, rows = [[1, 2], [3, 4]]\<rparr> [1] = Inr [[2], [4]] \<and>
   select_cols \<lparr>ncols = 2, rows = [[1, 2], [3, 4]]\<rparr> [0] = Inr [[1], [3]] \<and>
   averaged_profile \<lparr>ncols = 2, rows = [[1, 2], [3, 4]] @ [[1, 2], [3, 4]]\<rparr> 2 [1] = Inr [[2], [4]]"
proof -
  have a: "wf_table \<lparr>ncols = 2, rows = [[1, 2], [3, 4]]\<rparr>"
    by (simp add: wf_table_def)
  have b: "select_cols \<lparr>ncols = 2, rows = [[1, 2], [3, 4]]\<rparr> [1] = Inr [[2], [4]]"
    by (simp add: select_cols_def norm_index_def bind_result_def)
  have c: "select_cols \<lparr>ncols = 2, rows = [[1, 2], [3, 4]]\<rparr> [0] = Inr [[1], [3]]"
    by (simp add: select_cols_def norm_index_def bind_result_def)
  from average_of_identical_timesteps [OF a _ b c] a b c show ?thesis by simp
qed

subsection \<open>Names of the figure files\<close>

lemma replace_space_nth:
  "i < length q \<Longrightarrow> replace_space q ! i = (if q ! i = CHR '' '' then CHR ''_'' else q ! i)"
  by (simp add: replace_space_def)

text \<open>
  Claim C8, as amended. The file name of \<open>plotprofiles\<close> is the quantity name with
  spaces replaced by underscores (for the grid plots the fixed prefixes \<open>Grid\<close> and
  \<open>Gridkm\<close>), followed with no separator by \<open>istart_(ilast-1)_istep\<close> and
  \<open>.pdf\<close>; the file name of \<open>plotaveragedprofiles\<close> is \<open>fig_average\<close>, the
  quantity name with spaces replaced by underscores, and \<open>.pdf\<close>.
\<close>

theorem figure_file_names:
  "plotprofiles_filename quant0 istart ilast istep
     = (if quant0 = ''Grid'' then ''Grid'' else if quant0 = ''Grid km'' then ''Gridkm''
        else replace_space quant0)
       @ str_int istart @ ''_'' @ str_int (ilast - 1) @ ''_'' @ str_int istep @ ''.pdf'' \<and>
   plotaveragedprofiles_filename quant0 = ''fig_average'' @ replace_space quant0 @ ''.pdf'' \<and>
   length (replace_space quant0) = length quant0 \<and>
   (\<forall>i < length quant0.
      replace_space quant0 ! i = (if quant0 ! i = CHR '' '' then CHR ''_'' else quant0 ! i))"
  by (simp add: plotprofiles_filename_def plotaveragedprofiles_filename_def timename_def
      replace_space_nth) (simp add: replace_space_def)

lemmas eval_names = plotprofiles_filename_def plotaveragedprofiles_filename_def timename_def
  replace_space_def str_int_def str_nat.simps

theorem figure_file_names_witness:
  "plotprofiles_filename ''Horizontal velocity'' 0 100 1 = ''Horizontal_velocity0_99_1.pdf'' \<and>
   plotaveragedprofiles_filename ''Horizontal velocity'' = ''fig_averageHorizontal_velocity.pdf'' \<and>
   replace_space ''Horizontal velocity'' ! 10 = CHR ''_''"
  using figure_file_names [of "''Horizontal velocity''" 0 100 1]
  by (simp add: eval_names)

text \<open>
  Claim C8 as stated fails on its own example: for the quantity \<open>Temperature\<close> and
  the timesteps \<open>(0, 100, 1)\<close> the name is \<open>Temperature0_99_1.pdf\<close>, without an
  underscore between the quantity and the range; and the quantity \<open>Grid km\<close> is
  saved under \<open>Gridkm\<close>, its space dropped.
\<close>

theorem figure_file_names_counterexample:
  "plotprofiles_filename ''Temperature'' 0 100 1 = ''Temperature0_99_1.pdf'' \<and>
   ''Temperature0_99_1.pdf'' \<noteq> ''Temperature_0_99_1.pdf'' \<and>
   plotprofiles_filename ''Grid km'' 0 100 1 = ''Gridkm0_99_1.pdf''"
  by (simp add: eval_names)

subsection \<open>Theoretical initial profile\<close>

lemma cube_of_cube_root: "0 \<le> v \<Longrightarrow> (v powr (1 / 3)) ^ 3 = v" for v :: real
proof (cases "v = 0")
  case True
  then show ?thesis by simp
next
  case False
  assume "0 \<le> v"
  with False have pos: "0 < v" by simp
  have "(v powr (1 / 3)) ^ 3 = (v powr (1 / 3)) powr 3"
    using pos by simp
  also have "\<dots> = v powr 1"
    unfolding powr_powr by simp
  finally show ?thesis using pos by simp
qed

lemma rsup_of_value:
  assumes "0 < xi0l / xieut" "k_fe \<noteq> 1"
    and "0 \<le> rmax ^ 3 - (xi0l / xieut) powr (1 / (1 - k_fe)) * (rmax ^ 3 - rmin ^ 3)"
  shows "rsup_of xieut k_fe xi0l rmin rmax
         = Inr ((rmax ^ 3 - (xi0l / xieut) powr (1 / (1 - k_fe)) * (rmax ^ 3 - rmin ^ 3)) powr (1 / 3))"
proof -
  have "xieut \<noteq> 0" using assms(1) by auto
  then show ?thesis
    using assms
    by (simp add: rsup_of_def py_div_def bind_result_simps py_pow_def)
qed

lemma power_law_limit:
  fixes xi0l xieut k_fe rmin rmax :: real
  assumes x: "0 < xi0l / xieut" and k: "k_fe \<noteq> 1" and r: "rmin < rmax"
    and v: "0 \<le> rmax ^ 3 - (xi0l / xieut) powr (1 / (1 - k_fe)) * (rmax ^ 3 - rmin ^ 3)"
    and rs: "rs = (rmax ^ 3 - (xi0l / xieut) powr (1 / (1 - k_fe)) * (rmax ^ 3 - rmin ^ 3)) powr (1 / 3)"
  shows "(initprof (k_fe * xi0l) k_fe rmin rmax xieut rs \<longlongrightarrow> k_fe * xieut) (at_left rs)"
proof -
  define A where "A = rmax ^ 3 - rmin ^ 3"
  define p where "p = (xi0l / xieut) powr (1 / (1 - k_fe))"
  have Apos: "0 < A" unfolding A_def using cube_strict_mono[OF r] by simp
  have xne: "xi0l \<noteq> 0" "xieut \<noteq> 0" using x by auto
  have ppos: "0 < p" unfolding p_def using xne by simp
  have cube: "rs ^ 3 = rmax ^ 3 - p * A"
    unfolding rs p_def A_def using v by (rule cube_of_cube_root)
  then have den: "rmax ^ 3 - rs ^ 3 = p * A" by simp
  have base: "A / (rmax ^ 3 - rs ^ 3) = 1 / p"
    unfolding den using Apos ppos by simp
  have "(1 / p) powr (1 - k_fe) = 1 / p powr (1 - k_fe)"
    using ppos by (simp add: powr_divide)
  also have "\<dots> = p powr (- (1 - k_fe))"
    by (rule powr_minus_divide[symmetric])
  also have "\<dots> = (xi0l / xieut) powr (1 / (1 - k_fe) * - (1 - k_fe))"
    unfolding p_def by (rule powr_powr)
  also have "1 / (1 - k_fe) * - (1 - k_fe) = - 1"
  proof -
    have "1 - k_fe \<noteq> 0" using k by simp
    then have "1 / (1 - k_fe) * (1 - k_fe) = 1" by simp
    then show ?thesis by (simp only: mult_minus_right)
  qed
  also have "(xi0l / xieut) powr - 1 = 1 / (xi0l / xieut)"
    using x by (rule powr_neg_one)
  also have "\<dots> = xieut / xi0l"
    by simp
  finally have val: "(A / (rmax ^ 3 - rs ^ 3)) powr (1 - k_fe) = xieut / xi0l"
    unfolding base .
  have "((\<lambda>r. k_fe * xi0l * (A / (rmax ^ 3 - r ^ 3)) powr (1 - k_fe))
          \<longlongrightarrow> k_fe * xi0l * (A / (rmax ^ 3 - rs ^ 3)) powr (1 - k_fe)) (at rs)"
    using Apos ppos den base by (intro tendsto_intros) auto
  then have "((\<lambda>r. k_fe * xi0l * (A / (rmax ^ 3 - r ^ 3)) powr (1 - k_fe))
          \<longlongrightarrow> k_fe * xieut) (at rs)"
    unfolding val using xne by simp
  then have "((\<lambda>r. k_fe * xi0l * (A / (rmax ^ 3 - r ^ 3)) powr (1 - k_fe))
          \<longlongrightarrow> k_fe * xieut) (at_left rs)"
    by (rule tendsto_mono[rotated]) (simp add: at_le)
  moreover have "eventually (\<lambda>r. k_fe * xi0l * (A / (rmax ^ 3 - r ^ 3)) powr (1 - k_fe)
                     = initprof (k_fe * xi0l) k_fe rmin rmax xieut rs r) (at_left rs)"
    by (simp add: eventually_at_filter initprof_def A_def)
  ultimately show ?thesis
    by (rule Lim_transform_eventually)
qed

text \<open>
  Claim C4, as amended. When the ratio of the initial liquid concentration to the
  eutectic concentration is positive, \<open>k_fe \<noteq> 1\<close>, \<open>rmin < rmax\<close> and the cube of
  the critical radius is not negative, \<open>rprof_cmd\<close> computes a critical radius
  \<open>rsup\<close>, and the limit of the power-law branch of \<open>initprof\<close> as \<open>r\<close>
  approaches \<open>rsup\<close> from below is \<open>k_fe * xieut\<close>, while \<open>initprof\<close> returns
  \<open>xieut\<close> at \<open>rsup\<close>: the profile jumps there by \<open>(1 - k_fe) * xieut\<close>.
\<close>

theorem initprof_left_limit:
  assumes "0 < xi0l / xieut" "k_fe \<noteq> 1" "rmin < rmax"
    and "0 \<le> rmax ^ 3 - (xi0l / xieut) powr (1 / (1 - k_fe)) * (rmax ^ 3 - rmin ^ 3)"
  shows "\<exists>rsup. rsup_of xieut k_fe xi0l rmin rmax = Inr rsup \<and>
           (initprof (k_fe * xi0l) k_fe rmin rmax xieut rsup \<longlongrightarrow> k_fe * xieut) (at_left rsup) \<and>
           initprof (k_fe * xi0l) k_fe rmin rmax xieut rsup rsup = xieut"
proof -
  define rs where
    "rs = (rmax ^ 3 - (xi0l / xieut) powr (1 / (1 - k_fe)) * (rmax ^ 3 - rmin ^ 3)) powr (1 / 3)"
  have "rsup_of xieut k_fe xi0l rmin rmax = Inr rs"
    unfolding rs_def using assms(1,2,4) by (rule rsup_of_value)
  moreover have "(initprof (k_fe * xi0l) k_fe rmin rmax xieut rs \<longlongrightarrow> k_fe * xieut) (at_left rs)"
    using assms rs_def by (rule power_law_limit)
  moreover have "initprof (k_fe * xi0l) k_fe rmin rmax xieut rs rs = xieut"
    by (simp add: initprof_def)
  ultimately show ?thesis by blast
qed

text \<open>The constants \<open>xieut = 1\<close>, \<open>k_fe = 1/2\<close>, \<open>xi0l = 1/2\<close>, \<open>rmin = 1\<close>,
  \<open>rmax = 2\<close>.\<close>

lemma example_constants:
  "(0 :: real) < (1 / 2) / 1" "(1 / 2 :: real) \<noteq> 1" "(1 :: real) < 2"
  "(0 :: real) \<le> 2 ^ 3 - ((1 / 2) / 1) powr (1 / (1 - 1 / 2)) * (2 ^ 3 - 1 ^ 3)"
  by (simp_all add: power2_eq_square)

lemma example_rsup: "rsup_of 1 (1 / 2) (1 / 2) 1 2 = Inr ((25 / 4) powr (1 / 3))"
  using rsup_of_value[OF example_constants(1,2,4)] by (simp add: power2_eq_square)

theorem initprof_left_limit_witness:
  "rsup_of 1 (1 / 2) (1 / 2) 1 2 = Inr ((25 / 4) powr (1 / 3)) \<and>
   (initprof (1 / 4) (1 / 2) 1 2 1 ((25 / 4) powr (1 / 3)) \<longlongrightarrow> 1 / 2)
      (at_left ((25 / 4) powr (1 / 3))) \<and>
   initprof (1 / 4) (1 / 2) 1 2 1 ((25 / 4) powr (1 / 3)) ((25 / 4) powr (1 / 3)) = 1"
proof -
  from initprof_left_limit [OF example_constants]
  obtain rsup where r: "rsup_of 1 (1 / 2) (1 / 2) 1 2 = Inr rsup"
    and l: "(initprof ((1 / 2) * (1 / 2)) (1 / 2) 1 2 1 rsup \<longlongrightarrow> (1 / 2) * 1) (at_left rsup)"
    and v: "initprof ((1 / 2) * (1 / 2)) (1 / 2) 1 2 1 rsup rsup = 1"
    by blast
  from r example_rsup have "rsup = (25 / 4) powr (1 / 3)" by simp
  with r l v show ?thesis by simp
qed

text \<open>
  Claim C4 as stated fails for these constants: the critical radius is the cube root
  of \<open>25/4\<close>, the power-law branch tends to \<open>1/2\<close> there, and the eutectic
  constant is 1.
\<close>

theorem initprof_left_limit_counterexample:
  "rsup_of 1 (1 / 2) (1 / 2) 1 2 = Inr ((25 / 4) powr (1 / 3)) \<and>
   \<not> (initprof ((1 / 2) * (1 / 2)) (1 / 2) 1 2 1 ((25 / 4) powr (1 / 3)) \<longlongrightarrow> 1)
      (at_left ((25 / 4) powr (1 / 3)))"
proof
  show "rsup_of 1 (1 / 2) (1 / 2) 1 2 = Inr ((25 / 4) powr (1 / 3))"
    by (rule example_rsup)
  have rs: "(25 / 4 :: real) powr (1 / 3)
            = (2 ^ 3 - ((1 / 2) / 1) powr (1 / (1 - 1 / 2)) * (2 ^ 3 - 1 ^ 3)) powr (1 / 3)"
    by (simp add: power2_eq_square)
  have lim: "(initprof ((1 / 2) * (1 / 2)) (1 / 2) 1 2 1 ((25 / 4) powr (1 / 3))
               \<longlongrightarrow> (1 / 2) * 1) (at_left ((25 / 4) powr (1 / 3)))"
    using example_constants rs by (rule power_law_limit)
  show "\<not> (initprof ((1 / 2) * (1 / 2)) (1 / 2) 1 2 1 ((25 / 4) powr (1 / 3)) \<longlongrightarrow> 1)
          (at_left ((25 / 4) powr (1 / 3)))"
  proof
    assume "(initprof ((1 / 2) * (1 / 2)) (1 / 2) 1 2 1 ((25 / 4) powr (1 / 3)) \<longlongrightarrow> 1)
              (at_left ((25 / 4) powr (1 / 3)))"
    with lim have "(1 / 2) * 1 = (1 :: real)"
      by (intro tendsto_unique[OF trivial_limit_at_left_real])
    then show False by simp
  qed
qed

subsection \<open>The difference tracking\<close>


lemma rprof_cmd_raises:
  assumes "conctheo_setup (force_difference a) xieut k_fe xi0l rcmb = Inl e \<or> plotting = Inl e"
  shows "\<exists>e'. rprof_cmd a xieut k_fe xi0l rcmb plotting = Inl e'"
proof (cases "conctheo_setup (force_difference a) xieut k_fe xi0l rcmb")
  case (Inl e')
  then show ?thesis by (simp add: rprof_cmd_def Let_def bind_result_simps)
next
  case (Inr u)
  with assms have "plotting = Inl e" by simp
  with Inr show ?thesis by (simp add: rprof_cmd_def Let_def bind_result_simps)
qed





end
